theory Spec2Isabelle
  imports Main "HOL-Library.AList"
begin

section \<open>The joke service: repository, handlers, admin gate and routes\<close>

text \<open>
  The development follows the Go sources: \<^verbatim>\<open>internal/model\<close> (the \<open>Joke\<close> struct),
  \<^verbatim>\<open>internal/repository/joke.go\<close> (the SQLite repository),
  \<^verbatim>\<open>internal/handler/jokes.go\<close> (the HTTP handlers),
  \<^verbatim>\<open>internal/middleware/auth.go\<close> (the admin gate) and \<^verbatim>\<open>cmd/api/main.go\<close>
  (the routes). Library code the sources call (\<open>strconv\<close>, \<open>errors\<close>, \<open>fmt.Errorf\<close>,
  \<open>database/sql\<close> over SQLite, \<open>encoding/json\<close>, \<open>net/http\<close>, \<open>chi\<close>) is modelled by
  what it does on the values these sources pass to it.
\<close>

subsection \<open>strconv\<close>

datatype NumError = ErrSyntax | ErrRange

definition maxUint64 :: nat where
  "maxUint64 = 18446744073709551615"

definition maxInt64 :: int where
  "maxInt64 = 9223372036854775807"

definition is_digit :: "char \<Rightarrow> bool" where
  "is_digit c = (48 \<le> (of_char c :: nat) \<and> (of_char c :: nat) \<le> 57)"

definition digit_val :: "char \<Rightarrow> nat" where
  "digit_val c = (of_char c :: nat) - 48"

text \<open>
  \<open>strconv.ParseUint(s, 10, 64)\<close>: the loop over the bytes of \<open>s\<close>. A byte that is no
  decimal digit is a syntax error; \<open>n \<ge> cutoff\<close> (where \<open>cutoff = maxUint64 / 10 + 1\<close>)
  or a sum beyond \<open>maxUint64\<close> is a range error, reported at the byte where it happens.
\<close>

fun ParseUint_loop :: "string \<Rightarrow> nat \<Rightarrow> NumError + nat" where
  "ParseUint_loop [] n = Inr n"
| "ParseUint_loop (c # cs) n =
     (if \<not> is_digit c then Inl ErrSyntax
      else if n \<ge> maxUint64 div 10 + 1 then Inl ErrRange
      else if n * 10 + digit_val c > maxUint64 then Inl ErrRange
      else ParseUint_loop cs (n * 10 + digit_val c))"

definition ParseUint :: "string \<Rightarrow> NumError + nat" where
  "ParseUint s = (if s = [] then Inl ErrSyntax else ParseUint_loop s 0)"

text \<open>
  \<open>strconv.ParseInt(s, 10, 64)\<close>: an optional sign, then \<open>ParseUint\<close>, then the range
  check against \<open>1 << 63\<close>. On a range error of \<open>ParseUint\<close> Go goes on with the largest
  unsigned value, which fails the range check here as well.
\<close>

definition ParseInt :: "string \<Rightarrow> NumError + int" where
  "ParseInt s =
     (if s = [] then Inl ErrSyntax
      else
        let neg = (hd s = CHR ''-'');
            s1 = (if hd s = CHR ''+'' \<or> hd s = CHR ''-'' then tl s else s)
        in case ParseUint s1 of
             Inl ErrSyntax \<Rightarrow> Inl ErrSyntax
           | Inl ErrRange \<Rightarrow> Inl ErrRange
           | Inr un \<Rightarrow>
               if \<not> neg \<and> int un \<ge> maxInt64 + 1 then Inl ErrRange
               else if neg \<and> int un > maxInt64 + 1 then Inl ErrRange
               else Inr (if neg then - int un else int un))"

text \<open>
  \<open>strconv.Atoi\<close>: on a platform with 64-bit \<open>int\<close> its fast path (fewer than 19 bytes)
  and its slow path \<open>ParseInt(s, 10, 0)\<close> accept the same strings with the same values.
\<close>

definition Atoi :: "string \<Rightarrow> NumError + int" where
  "Atoi s = ParseInt s"

definition digit_char :: "nat \<Rightarrow> char" where
  "digit_char d = ''0123456789'' ! d"

fun format_nat :: "nat \<Rightarrow> string" where
  "format_nat n = (if n < 10 then [digit_char n] else format_nat (n div 10) @ [digit_char (n mod 10)])"

declare format_nat.simps [simp del]

text \<open>\<open>strconv.FormatInt(i, 10)\<close>.\<close>

definition FormatInt :: "int \<Rightarrow> string" where
  "FormatInt i = (if i < 0 then CHR ''-'' # format_nat (nat (- i)) else format_nat (nat i))"

subsection \<open>Errors\<close>

text \<open>
  The error values the repository and the driver produce. \<open>ErrJokeNotFound\<close> and
  \<open>ErrNoJokes\<close> are the two sentinels declared in the repository package, \<open>sql_ErrNoRows\<close>
  is the sentinel of \<open>database/sql\<close>, \<open>driver_error\<close> stands for any other failure of
  the storage engine, \<open>json_error\<close> for an error of \<open>encoding/json\<close>. \<open>Errorf msg (Some e)\<close> is \<open>fmt.Errorf(msg + ": %w", e)\<close>, a new error
  that wraps \<open>e\<close>; \<open>Errorf msg None\<close> is \<open>fmt.Errorf(msg)\<close>, a new error that wraps nothing.
  A sentinel is equal to itself only: an \<open>Errorf\<close> value is never a sentinel, whatever
  its message.
\<close>

datatype error =
    ErrJokeNotFound
  | ErrNoJokes
  | sql_ErrNoRows
  | driver_error
  | json_error
  | Errorf string "error option"

text \<open>\<open>errors.Is\<close>: walks the chain of wrapped errors, comparing each with the target.\<close>

fun errors_Is :: "error \<Rightarrow> error \<Rightarrow> bool" where
  "errors_Is (Errorf m (Some e)) target = (Errorf m (Some e) = target \<or> errors_Is e target)"
| "errors_Is e target = (e = target)"

subsection \<open>The entity and the store\<close>

type_synonym time = int

record Joke =
  ID :: int
  Text :: string
  CreatedAt :: time
  UpdatedAt :: time

text \<open>
  The world a request runs in: the rows of table \<open>jokes\<close> in the order a scan visits
  them, the table's \<open>AUTOINCREMENT\<close> counter, and three oracles for what the code cannot
  decide: whether the coming calls of the storage driver fail (\<open>True\<close> fails; past the end
  of the list every call succeeds), the coming draws of \<open>ORDER BY RANDOM()\<close>, and the
  readings of the wall clock (\<open>clock w n\<close> is the \<open>n\<close>-th reading, \<open>reads w\<close> counts the
  readings made).
\<close>

record world =
  jokes :: "Joke list"
  sqlite_sequence :: int
  faults :: "bool list"
  draws :: "nat list"
  clock :: "nat \<Rightarrow> time"
  reads :: nat

definition time_Now :: "world \<Rightarrow> time \<times> world" where
  "time_Now w = (clock w (reads w), w\<lparr>reads := Suc (reads w)\<rparr>)"

definition driver_call :: "world \<Rightarrow> bool \<times> world" where
  "driver_call w = (case faults w of [] \<Rightarrow> (False, w) | f # fs \<Rightarrow> (f, w\<lparr>faults := fs\<rparr>))"

definition next_draw :: "world \<Rightarrow> nat \<times> world" where
  "next_draw w = (case draws w of [] \<Rightarrow> (0, w) | d # ds \<Rightarrow> (d, w\<lparr>draws := ds\<rparr>))"

subsection \<open>database/sql over SQLite, for the statements of the repository\<close>

text \<open>
  \<open>QueryRowContext\<close> followed by \<open>Scan\<close>: the first row of the result, \<open>sql.ErrNoRows\<close>
  when the result is empty, the driver's error when the call fails.
\<close>

definition QueryRow_Scan :: "Joke list \<Rightarrow> bool \<Rightarrow> error + Joke" where
  "QueryRow_Scan result failed =
     (if failed then Inl driver_error
      else case result of [] \<Rightarrow> Inl sql_ErrNoRows | j # _ \<Rightarrow> Inr j)"

text \<open>\<open>SELECT ... FROM jokes WHERE id = ?\<close>\<close>

definition select_by_id :: "int \<Rightarrow> Joke list \<Rightarrow> Joke list" where
  "select_by_id i rows = filter (\<lambda>j. ID j = i) rows"

text \<open>
  \<open>SELECT ... FROM jokes ORDER BY RANDOM() LIMIT 1\<close>: one row of the table, chosen by
  the draw; no row when the table is empty.
\<close>

definition select_random :: "nat \<Rightarrow> Joke list \<Rightarrow> Joke list" where
  "select_random d rows = (if rows = [] then [] else [rows ! (d mod length rows)])"

text \<open>
  \<open>SELECT ... FROM jokes LIMIT ? OFFSET ?\<close>: SQLite reads a negative \<open>LIMIT\<close> as no
  limit and a negative \<open>OFFSET\<close> as zero.
\<close>

definition select_limit_offset :: "int \<Rightarrow> int \<Rightarrow> Joke list \<Rightarrow> Joke list" where
  "select_limit_offset lim off rows =
     (let rest = drop (nat off) rows in if lim < 0 then rest else take (nat lim) rest)"

text \<open>The result of \<open>ExecContext\<close>.\<close>

record sql_Result =
  lastInsertId :: int
  rowsAffected :: int

text \<open>
  \<open>LastInsertId\<close> and \<open>RowsAffected\<close> return an error in \<open>database/sql\<close>'s interface;
  the SQLite driver's result always has both values.
\<close>

definition LastInsertId :: "sql_Result \<Rightarrow> error + int" where
  "LastInsertId r = Inr (lastInsertId r)"

definition RowsAffected :: "sql_Result \<Rightarrow> error + int" where
  "RowsAffected r = Inr (rowsAffected r)"

definition max_rowid :: "Joke list \<Rightarrow> int" where
  "max_rowid rows = fold (\<lambda>j m. max (ID j) m) rows 0"

text \<open>
  \<open>INSERT INTO jokes (text, created_at, updated_at) VALUES (?, ?, ?)\<close> on a table whose
  key is \<open>INTEGER PRIMARY KEY AUTOINCREMENT\<close>: the new key is one more than the largest
  key the table ever held; when that is the largest 64-bit integer the insert fails.
\<close>

definition exec_insert :: "string \<Rightarrow> time \<Rightarrow> time \<Rightarrow> world \<Rightarrow> (error + sql_Result) \<times> world" where
  "exec_insert txt created updated w =
     (let (failed, w1) = driver_call w in
      if failed then (Inl driver_error, w1)
      else
        let rowid = max (sqlite_sequence w1) (max_rowid (jokes w1)) + 1 in
        if rowid > maxInt64 then (Inl driver_error, w1)
        else (Inr \<lparr>lastInsertId = rowid, rowsAffected = 1\<rparr>,
              w1\<lparr>jokes := jokes w1 @ [\<lparr>ID = rowid, Text = txt, CreatedAt = created, UpdatedAt = updated\<rparr>],
                 sqlite_sequence := rowid\<rparr>))"

text \<open>\<open>UPDATE jokes SET text = ?, updated_at = ? WHERE id = ?\<close>\<close>

definition exec_update :: "string \<Rightarrow> time \<Rightarrow> int \<Rightarrow> world \<Rightarrow> (error + sql_Result) \<times> world" where
  "exec_update txt updated i w =
     (let (failed, w1) = driver_call w in
      if failed then (Inl driver_error, w1)
      else (Inr \<lparr>lastInsertId = sqlite_sequence w1,
                 rowsAffected = int (length (filter (\<lambda>j. ID j = i) (jokes w1)))\<rparr>,
            w1\<lparr>jokes := map (\<lambda>j. if ID j = i then j\<lparr>Text := txt, UpdatedAt := updated\<rparr> else j) (jokes w1)\<rparr>))"

text \<open>\<open>DELETE FROM jokes WHERE id = ?\<close>\<close>

definition exec_delete :: "int \<Rightarrow> world \<Rightarrow> (error + sql_Result) \<times> world" where
  "exec_delete i w =
     (let (failed, w1) = driver_call w in
      if failed then (Inl driver_error, w1)
      else (Inr \<lparr>lastInsertId = sqlite_sequence w1,
                 rowsAffected = int (length (filter (\<lambda>j. ID j = i) (jokes w1)))\<rparr>,
            w1\<lparr>jokes := filter (\<lambda>j. ID j \<noteq> i) (jokes w1)\<rparr>))"

subsection \<open>Slices\<close>

text \<open>
  A Go slice is \<open>nil\<close> or holds a sequence; \<open>make([]T, 0)\<close> is an empty slice that is
  not \<open>nil\<close>, and \<open>append\<close> to either gives a slice that is not \<open>nil\<close>.
\<close>

datatype 'a slice = nil | Slice "'a list"

definition make_slice :: "'a slice" where
  "make_slice = Slice []"

fun append :: "'a slice \<Rightarrow> 'a \<Rightarrow> 'a slice" where
  "append nil x = Slice [x]"
| "append (Slice xs) x = Slice (xs @ [x])"

subsection \<open>The repository (\<^verbatim>\<open>SQLiteJokeRepository\<close>)\<close>

definition GetJoke :: "int \<Rightarrow> world \<Rightarrow> (error + Joke) \<times> world" where
  "GetJoke i w =
     (let (failed, w1) = driver_call w in
      case QueryRow_Scan (select_by_id i (jokes w1)) failed of
        Inl err \<Rightarrow>
          if err = sql_ErrNoRows then (Inl (Errorf ''joke not found'' (Some err)), w1)
          else (Inl (Errorf ''error getting joke'' (Some err)), w1)
      | Inr joke \<Rightarrow> (Inr joke, w1))"

definition GetRandomJoke :: "world \<Rightarrow> (error + Joke) \<times> world" where
  "GetRandomJoke w =
     (let (failed, w1) = driver_call w;
          (d, w2) = next_draw w1
      in case QueryRow_Scan (select_random d (jokes w2)) failed of
        Inl err \<Rightarrow>
          if err = sql_ErrNoRows then (Inl (Errorf ''joke not found'' (Some err)), w2)
          else (Inl (Errorf ''error getting joke'' (Some err)), w2)
      | Inr joke \<Rightarrow> (Inr joke, w2))"

text \<open>
  The loop \<^verbatim>\<open>for rows.Next() { ... rows.Scan(...) ... jokes = append(jokes, joke) }\<close>
  of \<open>ListJokes\<close>. Each \<open>Next\<close> and each \<open>Scan\<close> is a call of the driver and may fail.
  A \<open>Next\<close> that fails is \<open>false\<close>, as at the end of the rows: the loop ends, and since
  \<open>ListJokes\<close> does not look at \<open>rows.Err()\<close> it returns the rows read so far without
  an error. A \<open>Scan\<close> that fails is returned as an error.
\<close>

fun scan_rows :: "Joke list \<Rightarrow> Joke slice \<Rightarrow> world \<Rightarrow> (error + Joke slice) \<times> world" where
  "scan_rows [] js w = (let (next_failed, w1) = driver_call w in (Inr js, w1))"
| "scan_rows (row # rows) js w =
     (let (next_failed, w1) = driver_call w in
      if next_failed then (Inr js, w1)
      else
        let (failed, w2) = driver_call w1 in
        if failed then (Inl (Errorf ''error scanning joke'' (Some driver_error)), w2)
        else scan_rows rows (append js row) w2)"

definition ListJokes :: "int \<Rightarrow> int \<Rightarrow> world \<Rightarrow> (error + Joke slice) \<times> world" where
  "ListJokes lim off w =
     (let (failed, w1) = driver_call w in
      if failed then (Inl (Errorf ''error listing jokes'' (Some driver_error)), w1)
      else scan_rows (select_limit_offset lim off (jokes w1)) make_slice w1)"

definition CreateJoke :: "Joke \<Rightarrow> world \<Rightarrow> (error + int) \<times> world" where
  "CreateJoke joke w =
     (let (t1, w1) = time_Now w;
          (t2, w2) = time_Now w1;
          (res, w3) = exec_insert (Text joke) t1 t2 w2
      in case res of
        Inl err \<Rightarrow> (Inl (Errorf ''error creating joke'' (Some err)), w3)
      | Inr result \<Rightarrow>
          (case LastInsertId result of
             Inl err \<Rightarrow> (Inl (Errorf ''error getting last insert ID'' (Some err)), w3)
           | Inr i \<Rightarrow> (Inr i, w3)))"

text \<open>Go's \<open>error\<close> result of \<open>UpdateJoke\<close> and \<open>DeleteJoke\<close>: \<open>None\<close> is \<open>nil\<close>.\<close>

definition UpdateJoke :: "Joke \<Rightarrow> world \<Rightarrow> error option \<times> world" where
  "UpdateJoke joke w =
     (let (now, w1) = time_Now w;
          (res, w2) = exec_update (Text joke) now (ID joke) w1
      in case res of
        Inl err \<Rightarrow> (Some (Errorf ''error updating joke'' (Some err)), w2)
      | Inr result \<Rightarrow>
          (case RowsAffected result of
             Inl err \<Rightarrow> (Some (Errorf ''error getting rows affected'' (Some err)), w2)
           | Inr n \<Rightarrow>
               if n = 0 then (Some (Errorf ''joke not found'' None), w2)
               else (None, w2)))"

definition DeleteJoke :: "int \<Rightarrow> world \<Rightarrow> error option \<times> world" where
  "DeleteJoke i w =
     (let (res, w1) = exec_delete i w
      in case res of
        Inl err \<Rightarrow> (Some (Errorf ''error deleting joke'' (Some err)), w1)
      | Inr result \<Rightarrow>
          (case RowsAffected result of
             Inl err \<Rightarrow> (Some (Errorf ''error getting rows affected'' (Some err)), w1)
           | Inr n \<Rightarrow>
               if n = 0 then (Some (Errorf ''joke not found'' None), w1)
               else (None, w1)))"

definition CountJokes :: "world \<Rightarrow> (error + int) \<times> world" where
  "CountJokes w =
     (let (failed, w1) = driver_call w in
      if failed then (Inl (Errorf ''error counting jokes'' (Some driver_error)), w1)
      else (Inr (int (length (jokes w1))), w1))"

subsection \<open>encoding/json\<close>

text \<open>
  A JSON value, as the decoder reads it from the bytes of a request body.
\<close>

datatype jvalue =
    VNull
  | VBool bool
  | VNum int
  | VStr string
  | VArr "jvalue list"
  | VObj "(string \<times> jvalue) list"

text \<open>
  An encoded response body. \<open>JTime t\<close> is the JSON string that holds the RFC 3339
  rendering of the instant \<open>t\<close>.
\<close>

datatype json =
    JNull
  | JNum int
  | JStr string
  | JTime time
  | JArr "json list"
  | JObj "(string \<times> json) list"

definition to_lower :: "char \<Rightarrow> char" where
  "to_lower c =
     (case map_of (zip ''ABCDEFGHIJKLMNOPQRSTUVWXYZ'' ''abcdefghijklmnopqrstuvwxyz'') c of
        None \<Rightarrow> c
      | Some l \<Rightarrow> l)"

definition equal_fold :: "string \<Rightarrow> string \<Rightarrow> bool" where
  "equal_fold a b = (map to_lower a = map to_lower b)"

record CreateJokeRequest =
  ReqText :: string

text \<open>
  Decoding an object into \<open>CreateJokeRequest\<close>: a key that is \<open>text\<close>, in any case of
  letters, sets the field from a string, leaves it on \<open>null\<close> and is a type error on any
  other value; other keys are skipped; a later key overrides an earlier one.
\<close>

fun decode_fields :: "(string \<times> jvalue) list \<Rightarrow> CreateJokeRequest \<Rightarrow> error + CreateJokeRequest" where
  "decode_fields [] req = Inr req"
| "decode_fields ((k, v) # fs) req =
     (if equal_fold k ''text'' then
        (case v of
           VStr s \<Rightarrow> decode_fields fs (req\<lparr>ReqText := s\<rparr>)
         | VNull \<Rightarrow> decode_fields fs req
         | _ \<Rightarrow> Inl json_error)
      else decode_fields fs req)"

text \<open>
  \<open>json.NewDecoder(r.Body).Decode(&req)\<close> on a zero \<open>req\<close>. The decoder reads one
  JSON value from the start of the body and stops there: the argument is that value,
  \<open>None\<close> for a body that does not start with one. The bytes after the value are not
  read, and the handlers do not ask for them.
\<close>

definition Decode :: "jvalue option \<Rightarrow> error + CreateJokeRequest" where
  "Decode b =
     (case b of
        None \<Rightarrow> Inl json_error
      | Some VNull \<Rightarrow> Inr \<lparr>ReqText = []\<rparr>
      | Some (VObj fs) \<Rightarrow> decode_fields fs \<lparr>ReqText = []\<rparr>
      | Some _ \<Rightarrow> Inl json_error)"

record ErrorResponse =
  Error :: string

record JokeListResponse =
  Jokes :: "Joke slice"
  Total :: int
  Limit :: int
  Offset :: int

text \<open>The values the handlers pass to \<open>respondWithJSON\<close> as \<open>payload interface{}\<close>.\<close>

datatype payload =
    ErrorResponse_value ErrorResponse
  | Joke_value Joke
  | JokeListResponse_value JokeListResponse

text \<open>
  \<open>time.Time\<close>'s \<open>MarshalJSON\<close> fails outside the years 0 to 9999; instants are in
  nanoseconds since the Unix epoch.
\<close>

definition Time_MarshalJSON :: "time \<Rightarrow> error + json" where
  "Time_MarshalJSON t =
     (if - 62167219200 * 1000000000 \<le> t \<and> t < 253402300800 * 1000000000 then Inr (JTime t)
      else Inl json_error)"

definition Marshal_Joke :: "Joke \<Rightarrow> error + json" where
  "Marshal_Joke j =
     (case Time_MarshalJSON (CreatedAt j) of
        Inl err \<Rightarrow> Inl err
      | Inr c \<Rightarrow>
          (case Time_MarshalJSON (UpdatedAt j) of
             Inl err \<Rightarrow> Inl err
           | Inr u \<Rightarrow>
               Inr (JObj [(''id'', JNum (ID j)), (''joke'', JStr (Text j)),
                          (''created_at'', c), (''updated_at'', u)])))"

fun Marshal_Jokes :: "Joke list \<Rightarrow> error + json list" where
  "Marshal_Jokes [] = Inr []"
| "Marshal_Jokes (j # js) =
     (case Marshal_Joke j of
        Inl err \<Rightarrow> Inl err
      | Inr x \<Rightarrow> (case Marshal_Jokes js of Inl err \<Rightarrow> Inl err | Inr xs \<Rightarrow> Inr (x # xs)))"

text \<open>A \<open>nil\<close> slice encodes as \<open>null\<close>, any other slice as an array.\<close>

definition Marshal_slice :: "Joke slice \<Rightarrow> error + json" where
  "Marshal_slice s =
     (case s of
        nil \<Rightarrow> Inr JNull
      | Slice js \<Rightarrow> (case Marshal_Jokes js of Inl err \<Rightarrow> Inl err | Inr xs \<Rightarrow> Inr (JArr xs)))"

definition Marshal :: "payload \<Rightarrow> error + json" where
  "Marshal p =
     (case p of
        ErrorResponse_value e \<Rightarrow> Inr (JObj [(''error'', JStr (Error e))])
      | Joke_value j \<Rightarrow> Marshal_Joke j
      | JokeListResponse_value l \<Rightarrow>
          (case Marshal_slice (Jokes l) of
             Inl err \<Rightarrow> Inl err
           | Inr js \<Rightarrow>
               Inr (JObj [(''jokes'', js), (''total'', JNum (Total l)),
                          (''limit'', JNum (Limit l)), (''offset'', JNum (Offset l))])))"

subsection \<open>net/http\<close>

datatype verb = GET | POST | PUT | DELETE

text \<open>
  A request. The bytes of its body are given by what a decoder finds in them: \<open>Body\<close> is
  the JSON value the bytes start with (\<open>None\<close> when they do not start with a syntactically
  valid JSON value, an empty body too), \<open>Trailing\<close> are the bytes that follow that value.
  \<open>URLParams\<close> are the path parameters the router binds (\<open>chi.URLParam\<close>).
\<close>

record Request =
  Method :: verb
  Path :: string
  Query :: "(string \<times> string) list"
  Header :: "(string \<times> string) list"
  Body :: "jvalue option"
  Trailing :: string
  URLParams :: "(string \<times> string) list"

text \<open>
  The body as a whole is syntactically valid JSON when it starts with a value and
  nothing but white space (space, tab, line feed, carriage return) follows.
\<close>

definition json_space :: "char \<Rightarrow> bool" where
  "json_space c = (c = CHR '' '' \<or> c = CHR 0x09 \<or> c = CHR 0x0A \<or> c = CHR 0x0D)"

definition valid_JSON :: "Request \<Rightarrow> bool" where
  "valid_JSON r = (case Body r of None \<Rightarrow> False | Some v \<Rightarrow> list_all json_space (Trailing r))"

text \<open>\<open>r.URL.Query().Get(key)\<close>: the first value of the key, the empty string without one.\<close>

definition Query_Get :: "Request \<Rightarrow> string \<Rightarrow> string" where
  "Query_Get r key = (case map_of (Query r) key of None \<Rightarrow> [] | Some v \<Rightarrow> v)"

text \<open>\<open>r.Header.Get(key)\<close>: header names match in any case of letters.\<close>

definition Header_Get :: "Request \<Rightarrow> string \<Rightarrow> string" where
  "Header_Get r key =
     (case filter (\<lambda>(k, v). equal_fold k key) (Header r) of [] \<Rightarrow> [] | (k, v) # _ \<Rightarrow> v)"

definition URLParam :: "Request \<Rightarrow> string \<Rightarrow> string" where
  "URLParam r key = (case map_of (URLParams r) key of None \<Rightarrow> [] | Some v \<Rightarrow> v)"

text \<open>What a handler writes to the body: plain bytes or an encoded JSON value.\<close>

datatype chunk = Plain string | Encoded json

text \<open>
  The \<open>http.ResponseWriter\<close>: the header map, the status once \<open>WriteHeader\<close> has been
  called, and the chunks written so far.
\<close>

record ResponseWriter =
  headers :: "(string \<times> string) list"
  status :: "nat option"
  body :: "chunk list"

definition new_ResponseWriter :: ResponseWriter where
  "new_ResponseWriter = \<lparr>headers = [], status = None, body = []\<rparr>"

text \<open>A header set after the status line has gone out is not sent.\<close>

definition Header_Set :: "string \<Rightarrow> string \<Rightarrow> ResponseWriter \<Rightarrow> ResponseWriter" where
  "Header_Set k v w = (if status w = None then w\<lparr>headers := AList.update k v (headers w)\<rparr> else w)"

definition Header_Del :: "string \<Rightarrow> ResponseWriter \<Rightarrow> ResponseWriter" where
  "Header_Del k w = (if status w = None then w\<lparr>headers := AList.delete k (headers w)\<rparr> else w)"

text \<open>Only the first \<open>WriteHeader\<close> counts.\<close>

definition WriteHeader :: "nat \<Rightarrow> ResponseWriter \<Rightarrow> ResponseWriter" where
  "WriteHeader code w = (if status w = None then w\<lparr>status := Some code\<rparr> else w)"

text \<open>A \<open>Write\<close> before any \<open>WriteHeader\<close> sends status 200 first.\<close>

definition Write :: "chunk \<Rightarrow> ResponseWriter \<Rightarrow> ResponseWriter" where
  "Write c w = (let w1 = WriteHeader 200 w in w1\<lparr>body := body w1 @ [c]\<rparr>)"

text \<open>The status the client receives: 200 when the handler never wrote one.\<close>

definition StatusCode :: "ResponseWriter \<Rightarrow> nat" where
  "StatusCode w = (case status w of None \<Rightarrow> 200 | Some c \<Rightarrow> c)"

text \<open>\<open>http.Error\<close>: a plain-text body, the message and a newline.\<close>

definition http_Error :: "ResponseWriter \<Rightarrow> string \<Rightarrow> nat \<Rightarrow> ResponseWriter" where
  "http_Error w msg code =
     Write (Plain (msg @ [CHR 0x0A]))
       (WriteHeader code
         (Header_Set ''X-Content-Type-Options'' ''nosniff''
           (Header_Set ''Content-Type'' ''text/plain; charset=utf-8''
             (Header_Del ''Content-Length'' w))))"

definition http_NotFound :: "ResponseWriter \<Rightarrow> ResponseWriter" where
  "http_NotFound w = http_Error w ''404 page not found'' 404"

subsection \<open>The handlers (\<^verbatim>\<open>JokeHandler\<close>)\<close>

text \<open>
  A handler reads the request, writes to the response writer and may change the world.
  The handler's logger writes to standard output only and is left out.
\<close>

type_synonym handler = "Request \<Rightarrow> ResponseWriter \<Rightarrow> world \<Rightarrow> ResponseWriter \<times> world"

definition respondWithJSON :: "ResponseWriter \<Rightarrow> nat \<Rightarrow> payload \<Rightarrow> ResponseWriter" where
  "respondWithJSON w code p =
     (case Marshal p of
        Inl err \<Rightarrow> Write (Plain ''Internal Server Error'') (WriteHeader 500 w)
      | Inr response \<Rightarrow>
          Write (Encoded response) (WriteHeader code (Header_Set ''Content-Type'' ''application/json'' w)))"

definition respondWithError :: "ResponseWriter \<Rightarrow> nat \<Rightarrow> string \<Rightarrow> ResponseWriter" where
  "respondWithError w code message = respondWithJSON w code (ErrorResponse_value \<lparr>Error = message\<rparr>)"

text \<open>
  The first part of \<open>JokeHandler.ListJokes\<close>: the limit and the offset it passes on.
\<close>

definition list_limit :: "Request \<Rightarrow> int" where
  "list_limit r =
     (let limitParam = Query_Get r ''limit'' in
      if limitParam \<noteq> [] then
        (case Atoi limitParam of
           Inr parsedLimit \<Rightarrow> if parsedLimit > 0 then parsedLimit else 10
         | Inl err \<Rightarrow> 10)
      else 10)"

definition list_offset :: "Request \<Rightarrow> int" where
  "list_offset r =
     (let offsetParam = Query_Get r ''offset'' in
      if offsetParam \<noteq> [] then
        (case Atoi offsetParam of
           Inr parsedOffset \<Rightarrow> if parsedOffset \<ge> 0 then parsedOffset else 0
         | Inl err \<Rightarrow> 0)
      else 0)"

text \<open>
  The handler passes \<open>(limit, offset)\<close> in the order of the parameters of
  \<open>SQLiteJokeRepository.ListJokes\<close>; the names in the interface \<open>JokeRepository\<close> are
  the other way round and bind nothing.
\<close>

definition JokeHandler_ListJokes :: handler where
  "JokeHandler_ListJokes r w db =
     (let limit = list_limit r;
          offset = list_offset r;
          (res, db1) = ListJokes limit offset db
      in case res of
        Inl err \<Rightarrow> (respondWithError w 500 ''Failed to retrieve jokes'', db1)
      | Inr js \<Rightarrow>
          (let (res2, db2) = CountJokes db1 in
           case res2 of
             Inl err \<Rightarrow> (respondWithError w 500 ''Failed to count jokes'', db2)
           | Inr total' \<Rightarrow>
               (respondWithJSON w 200
                  (JokeListResponse_value \<lparr>Jokes = js, Total = total', Limit = limit, Offset = offset\<rparr>),
                db2)))"

definition JokeHandler_GetJoke :: handler where
  "JokeHandler_GetJoke r w db =
     (let idParam = URLParam r ''id'' in
      case ParseInt idParam of
        Inl err \<Rightarrow> (respondWithError w 400 ''Invalid joke ID'', db)
      | Inr i \<Rightarrow>
          (let (res, db1) = GetJoke i db in
           case res of
             Inl err \<Rightarrow>
               if errors_Is err ErrJokeNotFound then (respondWithError w 404 ''Joke not found'', db1)
               else (respondWithError w 500 ''Failed to retrieve joke'', db1)
           | Inr joke \<Rightarrow> (respondWithJSON w 200 (Joke_value joke), db1)))"

definition JokeHandler_GetRandomJoke :: handler where
  "JokeHandler_GetRandomJoke r w db =
     (let (res, db1) = GetRandomJoke db in
      case res of
        Inl err \<Rightarrow>
          if errors_Is err ErrNoJokes then (respondWithError w 404 ''No jokes available'', db1)
          else (respondWithError w 500 ''Failed to retrieve random joke'', db1)
      | Inr joke \<Rightarrow> (respondWithJSON w 200 (Joke_value joke), db1))"

text \<open>The zero \<open>time.Time\<close>: the first instant of year 1.\<close>

definition zero_Time :: time where
  "zero_Time = - 62135596800 * 1000000000"

definition JokeHandler_CreateJoke :: handler where
  "JokeHandler_CreateJoke r w db =
     (case Decode (Body r) of
        Inl err \<Rightarrow> (respondWithError w 400 ''Invalid request payload'', db)
      | Inr req \<Rightarrow>
          if ReqText req = [] then (respondWithError w 400 ''Joke text is required'', db)
          else
            (let joke = \<lparr>ID = 0, Text = ReqText req, CreatedAt = zero_Time, UpdatedAt = zero_Time\<rparr>;
                 (res, db1) = CreateJoke joke db
             in case res of
               Inl err \<Rightarrow> (respondWithError w 500 ''Failed to create joke'', db1)
             | Inr i \<Rightarrow>
                 (let (res2, db2) = GetJoke i db1 in
                  case res2 of
                    Inl err \<Rightarrow> (respondWithError w 500 ''Joke created but failed to retrieve'', db2)
                  | Inr createdJoke \<Rightarrow>
                      (respondWithJSON (Header_Set ''Location'' (''/api/jokes/'' @ FormatInt i) w) 201
                         (Joke_value createdJoke),
                       db2))))"

definition JokeHandler_UpdateJoke :: handler where
  "JokeHandler_UpdateJoke r w db =
     (let idParam = URLParam r ''id'' in
      case ParseInt idParam of
        Inl err \<Rightarrow> (respondWithError w 400 ''Invalid joke ID'', db)
      | Inr i \<Rightarrow>
          (case Decode (Body r) of
             Inl err \<Rightarrow> (respondWithError w 400 ''Invalid request payload'', db)
           | Inr req \<Rightarrow>
               if ReqText req = [] then (respondWithError w 400 ''Joke text is required'', db)
               else
                 (let (res, db1) = GetJoke i db in
                  case res of
                    Inl err \<Rightarrow>
                      if errors_Is err ErrJokeNotFound then (respondWithError w 404 ''Joke not found'', db1)
                      else (respondWithError w 500 ''Failed to retrieve joke'', db1)
                  | Inr found \<Rightarrow>
                      (let joke = \<lparr>ID = i, Text = ReqText req, CreatedAt = zero_Time, UpdatedAt = zero_Time\<rparr>;
                           (err, db2) = UpdateJoke joke db1
                       in case err of
                         Some e \<Rightarrow> (respondWithError w 500 ''Failed to update joke'', db2)
                       | None \<Rightarrow>
                           (let (res3, db3) = GetJoke i db2 in
                            case res3 of
                              Inl e \<Rightarrow> (respondWithError w 500 ''Joke updated but failed to retrieve'', db3)
                            | Inr updatedJoke \<Rightarrow> (respondWithJSON w 200 (Joke_value updatedJoke), db3))))))"

definition JokeHandler_DeleteJoke :: handler where
  "JokeHandler_DeleteJoke r w db =
     (let idParam = URLParam r ''id'' in
      case ParseInt idParam of
        Inl err \<Rightarrow> (respondWithError w 400 ''Invalid joke ID'', db)
      | Inr i \<Rightarrow>
          (let (err, db1) = DeleteJoke i db in
           case err of
             Some e \<Rightarrow>
               if errors_Is e ErrJokeNotFound then (respondWithError w 404 ''Joke not found'', db1)
               else (respondWithError w 500 ''Failed to delete joke'', db1)
           | None \<Rightarrow> (WriteHeader 204 w, db1)))"

subsection \<open>The admin gate (\<^verbatim>\<open>middleware.AdminAuth\<close>)\<close>

definition Unauthorized :: string where
  "Unauthorized = ''Unauthorized''"

definition AdminAuth :: "string \<Rightarrow> handler \<Rightarrow> handler" where
  "AdminAuth apiKey next r w db =
     (let key = Header_Get r ''Admin-API-Key'' in
      if key = [] then (http_Error w Unauthorized 401, db)
      else if key \<noteq> apiKey then (http_Error w Unauthorized 401, db)
      else next r w db)"

subsection \<open>The routes (\<^verbatim>\<open>run\<close> in \<^verbatim>\<open>cmd/api/main.go\<close>)\<close>

text \<open>
  The path after its leading slash, cut at every slash: \<open>/api/joke/7\<close> gives
  \<open>[api, joke, 7]\<close>, a trailing slash gives a last empty segment.
\<close>

fun split_slash :: "string \<Rightarrow> string list" where
  "split_slash [] = [[]]"
| "split_slash (c # cs) =
     (if c = CHR ''/'' then [] # split_slash cs
      else (case split_slash cs of [] \<Rightarrow> [[c]] | s # ss \<Rightarrow> (c # s) # ss))"

definition segments :: "string \<Rightarrow> string list" where
  "segments p = (case p of [] \<Rightarrow> [] | c # cs \<Rightarrow> if c = CHR ''/'' then split_slash cs else split_slash p)"

text \<open>
  chi's answers where no handler is registered: \<open>http.NotFound\<close> for an unknown path,
  status 405 with an empty body for a known path under another method (the \<open>Allow\<close>
  header that goes with it is left out).
\<close>

definition NotFound :: handler where
  "NotFound r w db = (http_NotFound w, db)"

definition MethodNotAllowed :: handler where
  "MethodNotAllowed r w db = (WriteHeader 405 w, db)"

text \<open>
  \<open>jokeRouter\<close>, mounted at \<open>/api/joke\<close>: \<open>Get("/")\<close>, \<open>Get("/random")\<close>,
  \<open>Get("/{id}")\<close>. The mount point itself and the mount point with a trailing slash both
  reach \<open>/\<close>; a path parameter matches one segment that is not empty; a fixed segment
  wins over a parameter.
\<close>

definition jokeRouter :: "string list \<Rightarrow> handler" where
  "jokeRouter rest r w db =
     (if rest = [] \<or> rest = [[]] then
        (if Method r = GET then JokeHandler_ListJokes r w db else MethodNotAllowed r w db)
      else if rest = [''random''] then
        (if Method r = GET then JokeHandler_GetRandomJoke r w db else MethodNotAllowed r w db)
      else if length rest = 1 then
        (if Method r = GET then JokeHandler_GetJoke (r\<lparr>URLParams := [(''id'', hd rest)]\<rparr>) w db
         else MethodNotAllowed r w db)
      else NotFound r w db)"

text \<open>
  \<open>adminRouter\<close>, mounted at \<open>/api/admin\<close>: \<open>Post("/joke")\<close>, \<open>Put("/joke/{id}")\<close>,
  \<open>Delete("/joke/{id}")\<close>, all behind \<open>AdminAuth\<close>, which runs before the router looks
  for a route.
\<close>

definition adminRoutes :: "string list \<Rightarrow> handler" where
  "adminRoutes rest r w db =
     (if rest = [''joke''] then
        (if Method r = POST then JokeHandler_CreateJoke r w db else MethodNotAllowed r w db)
      else if length rest = 2 \<and> hd rest = ''joke'' \<and> rest ! 1 \<noteq> [] then
        (if Method r = PUT then JokeHandler_UpdateJoke (r\<lparr>URLParams := [(''id'', rest ! 1)]\<rparr>) w db
         else if Method r = DELETE then JokeHandler_DeleteJoke (r\<lparr>URLParams := [(''id'', rest ! 1)]\<rparr>) w db
         else MethodNotAllowed r w db)
      else NotFound r w db)"

definition adminRouter :: "string \<Rightarrow> string list \<Rightarrow> handler" where
  "adminRouter adminApiKey rest = AdminAuth adminApiKey (adminRoutes rest)"

definition apiRouter :: "string \<Rightarrow> string list \<Rightarrow> handler" where
  "apiRouter adminApiKey rest r w db =
     (case rest of
        [] \<Rightarrow> NotFound r w db
      | s # rest1 \<Rightarrow>
          if s = ''admin'' then adminRouter adminApiKey rest1 r w db
          else if s = ''joke'' then jokeRouter rest1 r w db
          else NotFound r w db)"

text \<open>
  The root router, from a fresh response writer. The middleware of the root router
  (request id, real IP, request log, panic recovery, CORS headers) decides no status and
  no body of the routes below and is left out.
\<close>

definition serve :: "string \<Rightarrow> Request \<Rightarrow> world \<Rightarrow> ResponseWriter \<times> world" where
  "serve adminApiKey r db =
     (let w = new_ResponseWriter in
      case segments (Path r) of
        [] \<Rightarrow> NotFound r w db
      | s # rest \<Rightarrow>
          if s = [] \<and> rest = [] then
            (if Method r = GET then (Write (Plain ''Hello from the Jokes API!'') w, db)
             else MethodNotAllowed r w db)
          else if s = ''healthz'' \<and> rest = [] then
            (if Method r = GET then (Write (Plain ''OK'') (WriteHeader 200 w), db)
             else MethodNotAllowed r w db)
          else if s = ''api'' then apiRouter adminApiKey rest r w db
          else NotFound r w db)"

subsection \<open>Replies, requests and worlds the statements below refer to\<close>

text \<open>The reply \<open>respondWithError\<close> writes on a fresh response writer.\<close>

definition error_reply :: "nat \<Rightarrow> string \<Rightarrow> ResponseWriter" where
  "error_reply code message =
     \<lparr>headers = [(''Content-Type'', ''application/json'')], status = Some code,
      body = [Encoded (JObj [(''error'', JStr message)])]\<rparr>"

text \<open>A body that is one JSON object with the single member \<open>error\<close>, a string.\<close>

definition has_error_shape :: "ResponseWriter \<Rightarrow> bool" where
  "has_error_shape w =
     (case body w of
        [Encoded (JObj [(k, JStr m)])] \<Rightarrow> k = ''error''
      | _ \<Rightarrow> False)"

text \<open>
  The limit and the offset of a list request in the words of the specification: the
  default unless the parameter parses as a positive (non-negative) integer.
\<close>

definition effective_limit :: "Request \<Rightarrow> int" where
  "effective_limit r =
     (case Atoi (Query_Get r ''limit'') of Inr n \<Rightarrow> if 0 < n then n else 10 | Inl e \<Rightarrow> 10)"

definition effective_offset :: "Request \<Rightarrow> int" where
  "effective_offset r =
     (case Atoi (Query_Get r ''offset'') of Inr n \<Rightarrow> if 0 \<le> n then n else 0 | Inl e \<Rightarrow> 0)"

text \<open>A joke whose two instants the encoder accepts, and what it encodes to.\<close>

definition year_0_to_9999 :: "time \<Rightarrow> bool" where
  "year_0_to_9999 t = (- 62167219200 * 1000000000 \<le> t \<and> t < 253402300800 * 1000000000)"

definition encodable :: "Joke \<Rightarrow> bool" where
  "encodable j = (year_0_to_9999 (CreatedAt j) \<and> year_0_to_9999 (UpdatedAt j))"

definition encode_Joke :: "Joke \<Rightarrow> json" where
  "encode_Joke j =
     JObj [(''id'', JNum (ID j)), (''joke'', JStr (Text j)),
           (''created_at'', JTime (CreatedAt j)), (''updated_at'', JTime (UpdatedAt j))]"

text \<open>The reply of a successful list request on a fresh response writer.\<close>

definition list_reply :: "json list \<Rightarrow> int \<Rightarrow> int \<Rightarrow> int \<Rightarrow> ResponseWriter" where
  "list_reply js n lim off =
     \<lparr>headers = [(''Content-Type'', ''application/json'')], status = Some 200,
      body = [Encoded (JObj [(''jokes'', JArr js), (''total'', JNum n),
                             (''limit'', JNum lim), (''offset'', JNum off)])]\<rparr>"

text \<open>A clock that advances by one nanosecond from one reading to the next.\<close>

definition ticking_clock :: "nat \<Rightarrow> time" where
  "ticking_clock n = 1700000000000000000 + int n"

text \<open>
  The world right after start-up on a new database file: an empty table, a storage
  driver that does not fail, the ticking clock.
\<close>

definition fresh_world :: world where
  "fresh_world =
     \<lparr>jokes = [], sqlite_sequence = 0, faults = [], draws = [], clock = ticking_clock, reads = 0\<rparr>"

definition request :: "verb \<Rightarrow> string \<Rightarrow> Request" where
  "request m p =
     \<lparr>Method = m, Path = p, Query = [], Header = [], Body = None, Trailing = [], URLParams = []\<rparr>"

definition admin_request :: "string \<Rightarrow> verb \<Rightarrow> string \<Rightarrow> jvalue option \<Rightarrow> Request" where
  "admin_request key m p b =
     \<lparr>Method = m, Path = p, Query = [], Header = [(''Admin-Api-Key'', key)], Body = b,
      Trailing = [], URLParams = []\<rparr>"

text \<open>The first joke created in the fresh world, and the world after its creation.\<close>

definition knock_knock :: Joke where
  "knock_knock =
     \<lparr>ID = 1, Text = ''knock knock'', CreatedAt = 1700000000000000000, UpdatedAt = 1700000000000000001\<rparr>"

definition one_joke_world :: world where
  "one_joke_world =
     \<lparr>jokes = [knock_knock], sqlite_sequence = 1, faults = [], draws = [], clock = ticking_clock, reads = 2\<rparr>"

text \<open>
  What a handler leaves in a fresh response writer: a success status, a reply of
  \<open>respondWithError\<close> with a failure status, or the fallback of \<open>respondWithJSON\<close> for a
  payload that cannot be encoded.
\<close>

definition handler_reply :: "ResponseWriter \<Rightarrow> bool" where
  "handler_reply w =
     (StatusCode w < 400
      \<or> (400 \<le> StatusCode w \<and> headers w = [(''Content-Type'', ''application/json'')] \<and> has_error_shape w)
      \<or> (StatusCode w = 500 \<and> body w = [Plain ''Internal Server Error'']))"

section \<open>Properties\<close>

subsection \<open>Unfolding the model on concrete input\<close>

lemmas strconv_defs = ParseInt_def ParseUint_def is_digit_def digit_val_def maxUint64_def maxInt64_def
  FormatInt_def format_nat.simps digit_char_def Atoi_def

lemmas http_defs = Header_Set_def Header_Del_def WriteHeader_def Write_def StatusCode_def http_Error_def
  http_NotFound_def new_ResponseWriter_def respondWithJSON_def respondWithError_def Marshal_def
  Query_Get_def Header_Get_def URLParam_def equal_fold_def to_lower_def
  Marshal_Joke_def Marshal_slice_def Time_MarshalJSON_def

lemmas route_defs = serve_def apiRouter_def adminRouter_def adminRoutes_def jokeRouter_def AdminAuth_def
  segments_def NotFound_def MethodNotAllowed_def Unauthorized_def

lemmas repo_defs = GetJoke_def GetRandomJoke_def ListJokes_def CreateJoke_def UpdateJoke_def DeleteJoke_def
  CountJokes_def driver_call_def next_draw_def time_Now_def QueryRow_Scan_def select_by_id_def
  select_random_def select_limit_offset_def exec_insert_def exec_update_def exec_delete_def
  LastInsertId_def RowsAffected_def max_rowid_def make_slice_def

lemmas handler_defs = JokeHandler_GetJoke_def JokeHandler_GetRandomJoke_def JokeHandler_ListJokes_def
  JokeHandler_CreateJoke_def JokeHandler_UpdateJoke_def JokeHandler_DeleteJoke_def
  list_limit_def list_offset_def Decode_def zero_Time_def

lemmas fixture_defs = fresh_world_def request_def admin_request_def knock_knock_def one_joke_world_def
  ticking_clock_def error_reply_def encode_Joke_def

lemmas run_defs = strconv_defs http_defs route_defs repo_defs handler_defs fixture_defs

subsection \<open>The repository on a healthy driver, and what its results say about the table\<close>

lemma driver_call_healthy: "faults w = [] \<Longrightarrow> driver_call w = (False, w)"
  by (simp add: driver_call_def)

lemma driver_call_jokes: "jokes (snd (driver_call w)) = jokes w"
  by (simp add: driver_call_def split: list.splits)

lemma scan_rows_healthy:
  "faults w = [] \<Longrightarrow> scan_rows rows (Slice acc) w = (Inr (Slice (acc @ rows)), w)"
  by (induction rows arbitrary: acc) (simp_all add: driver_call_healthy)

lemma scan_rows_not_nil: "fst (scan_rows rows (Slice acc) w) \<noteq> Inr nil"
  by (induction rows arbitrary: acc w) (simp_all add: split_beta)

lemma ListJokes_not_nil: "fst (ListJokes lim off db) \<noteq> Inr nil"
  by (simp add: ListJokes_def make_slice_def split_beta scan_rows_not_nil)

lemma ListJokes_healthy:
  "faults w = [] \<Longrightarrow> ListJokes lim off w = (Inr (Slice (select_limit_offset lim off (jokes w))), w)"
  by (simp add: ListJokes_def driver_call_healthy make_slice_def scan_rows_healthy)

lemma ListJokes_Slice:
  assumes "ListJokes lim off w = (Inr s, w')"
  shows "\<exists>js. s = Slice js"
proof (cases s)
  case nil
  with assms ListJokes_not_nil[of lim off w] show ?thesis by simp
next
  case (Slice js)
  then show ?thesis by blast
qed

lemma CountJokes_healthy: "faults w = [] \<Longrightarrow> CountJokes w = (Inr (int (length (jokes w))), w)"
  by (simp add: CountJokes_def driver_call_healthy)

lemma CountJokes_result:
  assumes "CountJokes w = (Inr n, w')"
  shows "n = int (length (jokes w)) \<and> jokes w' = jokes w"
proof -
  obtain f w1 where d: "driver_call w = (f, w1)" by (cases "driver_call w")
  from driver_call_jokes[of w] d have "jokes w1 = jokes w" by simp
  with assms d show ?thesis by (auto simp: CountJokes_def split: if_splits)
qed

lemma select_all: "select_limit_offset (int (length rows)) 0 rows = rows"
  by (simp add: select_limit_offset_def)

lemma list_all_select: "list_all P rows \<Longrightarrow> list_all P (select_limit_offset lim off rows)"
  by (auto simp: select_limit_offset_def list_all_iff Let_def split: if_splits
      dest: in_set_dropD in_set_takeD)

subsection \<open>The errors of the repository are never its sentinels\<close>

lemma GetJoke_error_is_no_sentinel:
  "fst (GetJoke i db) = Inl e \<Longrightarrow> \<not> errors_Is e ErrJokeNotFound"
  by (auto simp: GetJoke_def QueryRow_Scan_def split_beta split: if_splits list.splits)

lemma GetRandomJoke_error_is_no_sentinel:
  "fst (GetRandomJoke db) = Inl e \<Longrightarrow> \<not> errors_Is e ErrNoJokes"
  by (auto simp: GetRandomJoke_def QueryRow_Scan_def split_beta split: if_splits list.splits)

lemma DeleteJoke_error_is_no_sentinel:
  "fst (DeleteJoke i db) = Some e \<Longrightarrow> \<not> errors_Is e ErrJokeNotFound"
  by (auto simp: DeleteJoke_def exec_delete_def RowsAffected_def split_beta split: if_splits)

subsection \<open>Creation and deletion\<close>

lemma fold_max_ge: "a \<le> fold (\<lambda>j m. max (ID j) m) rows (a::int)"
proof (induction rows arbitrary: a)
  case Nil
  show ?case by simp
next
  case (Cons r rows)
  have "a \<le> max (ID r) a" by simp
  also have "\<dots> \<le> fold (\<lambda>j m. max (ID j) m) rows (max (ID r) a)" by (rule Cons.IH)
  finally show ?case by simp
qed

lemma fold_max_member: "j \<in> set rows \<Longrightarrow> ID j \<le> fold (\<lambda>j m. max (ID j) m) rows (a::int)"
proof (induction rows arbitrary: a)
  case Nil
  then show ?case by simp
next
  case (Cons r rows)
  show ?case
  proof (cases "j = r")
    case True
    have "ID r \<le> max (ID r) a" by simp
    also have "\<dots> \<le> fold (\<lambda>j m. max (ID j) m) rows (max (ID r) a)" by (rule fold_max_ge)
    finally show ?thesis using True by simp
  next
    case False
    with Cons.prems have "j \<in> set rows" by simp
    from Cons.IH[OF this] show ?thesis by simp
  qed
qed

lemma max_rowid_nonneg: "0 \<le> max_rowid rows"
  unfolding max_rowid_def by (rule fold_max_ge)

lemma max_rowid_member: "j \<in> set rows \<Longrightarrow> ID j \<le> max_rowid rows"
  unfolding max_rowid_def by (rule fold_max_member)

lemma select_new_row:
  assumes "max_rowid rows < i" and "ID new = i"
  shows "select_by_id i (rows @ [new]) = [new]"
proof -
  have "filter (\<lambda>j. ID j = i) rows = []"
    using assms(1) max_rowid_member by (fastforce simp: filter_empty_conv)
  with assms(2) show ?thesis by (simp add: select_by_id_def)
qed

text \<open>
  A joke read back after its creation has the text given and an id above zero; its two
  instants are the two readings of the clock that \<open>CreateJoke\<close> makes.
\<close>

lemma created_joke_read_back:
  assumes c: "CreateJoke joke db = (Inr i, db1)" and g: "GetJoke i db1 = (Inr j, db2)"
  shows "Text j = Text joke \<and> ID j = i \<and> 0 < i
         \<and> CreatedAt j = clock db (reads db) \<and> UpdatedAt j = clock db (Suc (reads db))"
proof -
  let ?w2 = "db\<lparr>reads := Suc (Suc (reads db))\<rparr>"
  obtain f w3 where d: "driver_call ?w2 = (f, w3)" by (cases "driver_call ?w2")
  from driver_call_jokes[of ?w2] d have j3: "jokes w3 = jokes db" by simp
  let ?rowid = "max (sqlite_sequence w3) (max_rowid (jokes w3)) + 1"
  let ?new = "\<lparr>ID = ?rowid, Text = Text joke, CreatedAt = clock db (reads db),
               UpdatedAt = clock db (Suc (reads db))\<rparr>"
  from c d have i: "i = ?rowid" and db1: "jokes db1 = jokes w3 @ [?new]"
    by (auto simp: CreateJoke_def time_Now_def exec_insert_def LastInsertId_def Let_def
        split: if_splits)
  have pos: "0 < i" using max_rowid_nonneg[of "jokes w3"] i by linarith
  have lt: "max_rowid (jokes w3) < i" using i by linarith
  obtain f' w4 where d': "driver_call db1 = (f', w4)" by (cases "driver_call db1")
  from driver_call_jokes[of db1] d' have "jokes w4 = jokes db1" by simp
  with db1 have "select_by_id i (jokes w4) = [?new]"
    using select_new_row[OF lt, of ?new] i by simp
  with g d' have "j = ?new"
    by (auto simp: GetJoke_def QueryRow_Scan_def split: if_splits)
  with pos i show ?thesis by simp
qed

lemma create_and_read_back_succeed:
  assumes "faults db = []" and "max (sqlite_sequence db) (max_rowid (jokes db)) < maxInt64"
  shows "\<exists>i db1 j. CreateJoke joke db = (Inr i, db1) \<and> GetJoke i db1 = (Inr j, db1)"
proof -
  let ?rowid = "max (sqlite_sequence db) (max_rowid (jokes db)) + 1"
  let ?new = "\<lparr>ID = ?rowid, Text = Text joke, CreatedAt = clock db (reads db),
               UpdatedAt = clock db (Suc (reads db))\<rparr>"
  let ?db1 = "db\<lparr>reads := Suc (Suc (reads db)), jokes := jokes db @ [?new], sqlite_sequence := ?rowid\<rparr>"
  from assms(2) have fits: "\<not> maxInt64 < ?rowid" by linarith
  from assms(1) fits have c: "CreateJoke joke db = (Inr ?rowid, ?db1)"
    by (simp add: CreateJoke_def time_Now_def exec_insert_def driver_call_def LastInsertId_def Let_def
        del: max_less_iff_conj)
  have lt: "max_rowid (jokes db) < ?rowid" by linarith
  have "select_by_id ?rowid (jokes db @ [?new]) = [?new]"
    using select_new_row[OF lt, of ?new] by simp
  with assms(1) have "GetJoke ?rowid ?db1 = (Inr ?new, ?db1)"
    by (simp add: GetJoke_def driver_call_def QueryRow_Scan_def)
  with c show ?thesis by blast
qed

text \<open>A deletion that reports success removed at least one row, and none with that id is left.\<close>

lemma deleted_joke_is_gone:
  assumes "DeleteJoke i db = (None, db1)"
  shows "select_by_id i (jokes db1) = [] \<and> select_by_id i (jokes db) \<noteq> []"
proof -
  obtain f w1 where d: "driver_call db = (f, w1)" by (cases "driver_call db")
  from driver_call_jokes[of db] d have "jokes w1 = jokes db" by simp
  with assms d show ?thesis
    by (auto simp: DeleteJoke_def exec_delete_def RowsAffected_def select_by_id_def Let_def
        filter_empty_conv split: if_splits)
qed

subsection \<open>Parsing and encoding\<close>

lemma Atoi_empty: "Atoi [] = Inl ErrSyntax"
  by (simp add: Atoi_def ParseInt_def)

lemma list_limit_effective: "list_limit r = effective_limit r"
  by (simp add: list_limit_def effective_limit_def Atoi_empty Let_def)

lemma list_offset_effective: "list_offset r = effective_offset r"
  by (simp add: list_offset_def effective_offset_def Atoi_empty Let_def)

lemma Marshal_Joke_encodable: "encodable j \<Longrightarrow> Marshal_Joke j = Inr (encode_Joke j)"
  by (simp add: encodable_def year_0_to_9999_def Marshal_Joke_def Time_MarshalJSON_def encode_Joke_def)

lemma Marshal_Jokes_encodable: "list_all encodable js \<Longrightarrow> Marshal_Jokes js = Inr (map encode_Joke js)"
  by (induction js) (simp_all add: Marshal_Joke_encodable)

subsection \<open>What the handlers write\<close>

lemma fresh_writer [simp]: "status new_ResponseWriter = None" "body new_ResponseWriter = []"
  by (simp_all add: new_ResponseWriter_def)

lemma respondWithError_fresh: "respondWithError new_ResponseWriter code msg = error_reply code msg"
  by (simp add: respondWithError_def respondWithJSON_def Marshal_def error_reply_def new_ResponseWriter_def
      Header_Set_def WriteHeader_def Write_def)

lemma respondWithJSON_list_cases:
  "respondWithJSON new_ResponseWriter 200
     (JokeListResponse_value \<lparr>Jokes = Slice js, Total = n, Limit = lim, Offset = off\<rparr>) =
   (case Marshal_Jokes js of
      Inl e \<Rightarrow> \<lparr>headers = [], status = Some 500, body = [Plain ''Internal Server Error'']\<rparr>
    | Inr xs \<Rightarrow> list_reply xs n lim off)"
  by (simp add: respondWithJSON_def Marshal_def Marshal_slice_def list_reply_def new_ResponseWriter_def
      Header_Set_def WriteHeader_def Write_def split: sum.splits)

lemma JokeHandler_ListJokes_healthy:
  assumes "faults db = []"
  shows "JokeHandler_ListJokes r new_ResponseWriter db =
     (respondWithJSON new_ResponseWriter 200
        (JokeListResponse_value
           \<lparr>Jokes = Slice (select_limit_offset (list_limit r) (list_offset r) (jokes db)),
            Total = int (length (jokes db)), Limit = list_limit r, Offset = list_offset r\<rparr>), db)"
  using assms by (simp add: JokeHandler_ListJokes_def ListJokes_healthy CountJokes_healthy Let_def)

lemma list_200_has_array:
  assumes "StatusCode (fst (JokeHandler_ListJokes r new_ResponseWriter db)) = 200"
  shows "\<exists>xs n. fst (JokeHandler_ListJokes r new_ResponseWriter db) =
           list_reply xs n (list_limit r) (list_offset r)"
proof -
  obtain res db1 where l: "ListJokes (list_limit r) (list_offset r) db = (res, db1)"
    by (cases "ListJokes (list_limit r) (list_offset r) db")
  show ?thesis
  proof (cases res)
    case (Inl e)
    with l assms show ?thesis
      by (simp add: JokeHandler_ListJokes_def Let_def respondWithError_fresh error_reply_def StatusCode_def)
  next
    case (Inr s)
    with l ListJokes_Slice[of "list_limit r" "list_offset r" db s db1]
    obtain js where s: "s = Slice js" by auto
    obtain res2 db2 where c: "CountJokes db1 = (res2, db2)" by (cases "CountJokes db1")
    show ?thesis
    proof (cases res2)
      case (Inl e)
      with l Inr c assms show ?thesis
        by (simp add: JokeHandler_ListJokes_def Let_def respondWithError_fresh error_reply_def StatusCode_def)
    next
      case (Inr n)
      with l \<open>res = Inr s\<close> s c assms show ?thesis
        by (cases "Marshal_Jokes js")
           (auto simp: JokeHandler_ListJokes_def Let_def respondWithJSON_list_cases StatusCode_def)
    qed
  qed
qed

lemma respondWithJSON_status:
  "status w = None \<Longrightarrow>
     StatusCode (respondWithJSON w code p) = code \<or> StatusCode (respondWithJSON w code p) = 500"
  by (cases "Marshal p")
     (simp_all add: respondWithJSON_def StatusCode_def Header_Set_def WriteHeader_def Write_def)

lemma list_status_200_or_500:
  "StatusCode (fst (JokeHandler_ListJokes r new_ResponseWriter db)) = 200
   \<or> StatusCode (fst (JokeHandler_ListJokes r new_ResponseWriter db)) = 500"
proof -
  have e: "StatusCode (error_reply 500 m) = 500" for m
    by (simp add: error_reply_def StatusCode_def)
  have j: "StatusCode (respondWithJSON new_ResponseWriter 200 p) = 200
           \<or> StatusCode (respondWithJSON new_ResponseWriter 200 p) = 500" for p
    by (rule respondWithJSON_status) simp
  show ?thesis
    using j by (auto simp: JokeHandler_ListJokes_def Let_def respondWithError_fresh e
        split: sum.splits prod.splits)
qed

text \<open>A create request without a text, or with an empty one, is answered 400.\<close>

lemma create_without_text_answers_400:
  assumes "Decode (Body r) = Inr req" and "ReqText req = []"
  shows "JokeHandler_CreateJoke r new_ResponseWriter db = (error_reply 400 ''Joke text is required'', db)"
  using assms by (simp add: JokeHandler_CreateJoke_def respondWithError_fresh)

lemma decode_without_text:
  "Decode (Some (VObj [])) = Inr \<lparr>ReqText = []\<rparr>"
  "Decode (Some (VObj [(''text'', VStr [])])) = Inr \<lparr>ReqText = []\<rparr>"
  by (simp_all add: Decode_def equal_fold_def)

subsection \<open>Answers the handlers never give, and the path in \<open>Location\<close>\<close>

lemma status_error_reply: "StatusCode (error_reply code m) = code"
  by (simp add: error_reply_def StatusCode_def)

lemma get_joke_never_answers_404:
  "StatusCode (fst (JokeHandler_GetJoke r new_ResponseWriter db)) \<noteq> 404"
proof (cases "ParseInt (URLParam r ''id'')")
  case (Inl e)
  then show ?thesis
    by (simp add: JokeHandler_GetJoke_def respondWithError_fresh status_error_reply)
next
  case (Inr i)
  obtain res db1 where g: "GetJoke i db = (res, db1)" by (cases "GetJoke i db")
  show ?thesis
  proof (cases res)
    case (Inl e)
    with g GetJoke_error_is_no_sentinel[of i db e] have "\<not> errors_Is e ErrJokeNotFound" by simp
    with Inr g Inl show ?thesis
      by (simp add: JokeHandler_GetJoke_def respondWithError_fresh status_error_reply)
  next
    case (Inr j)
    with \<open>ParseInt (URLParam r ''id'') = Inr i\<close> g
      respondWithJSON_status[of new_ResponseWriter 200 "Joke_value j"]
    show ?thesis by (auto simp: JokeHandler_GetJoke_def)
  qed
qed

lemma random_joke_never_answers_404:
  "StatusCode (fst (JokeHandler_GetRandomJoke r new_ResponseWriter db)) \<noteq> 404"
proof -
  obtain res db1 where g: "GetRandomJoke db = (res, db1)" by (cases "GetRandomJoke db")
  show ?thesis
  proof (cases res)
    case (Inl e)
    with g GetRandomJoke_error_is_no_sentinel[of db e] have "\<not> errors_Is e ErrNoJokes" by simp
    with g Inl show ?thesis
      by (simp add: JokeHandler_GetRandomJoke_def respondWithError_fresh status_error_reply)
  next
    case (Inr j)
    with g respondWithJSON_status[of new_ResponseWriter 200 "Joke_value j"]
    show ?thesis by (auto simp: JokeHandler_GetRandomJoke_def)
  qed
qed

lemma delete_joke_never_answers_404:
  "StatusCode (fst (JokeHandler_DeleteJoke r new_ResponseWriter db)) \<noteq> 404"
proof (cases "ParseInt (URLParam r ''id'')")
  case (Inl e)
  then show ?thesis
    by (simp add: JokeHandler_DeleteJoke_def respondWithError_fresh status_error_reply)
next
  case (Inr i)
  obtain err db1 where g: "DeleteJoke i db = (err, db1)" by (cases "DeleteJoke i db")
  show ?thesis
  proof (cases err)
    case None
    with Inr g show ?thesis
      by (simp add: JokeHandler_DeleteJoke_def WriteHeader_def StatusCode_def)
  next
    case (Some e)
    with g DeleteJoke_error_is_no_sentinel[of i db e] have "\<not> errors_Is e ErrJokeNotFound" by simp
    with Inr g Some show ?thesis
      by (simp add: JokeHandler_DeleteJoke_def respondWithError_fresh status_error_reply)
  qed
qed

lemma jokes_path_is_no_route:
  "serve key (r\<lparr>Path := ''/api/jokes/'' @ x\<rparr>) db = (http_NotFound new_ResponseWriter, db)"
  by (simp add: serve_def segments_def apiRouter_def NotFound_def)

lemma created_joke_location:
  assumes "StatusCode (fst (JokeHandler_CreateJoke r new_ResponseWriter db)) = 201"
  shows "\<exists>i. map_of (headers (fst (JokeHandler_CreateJoke r new_ResponseWriter db))) ''Location''
            = Some (''/api/jokes/'' @ FormatInt i)"
proof -
  have j: "status w = None \<Longrightarrow> StatusCode (respondWithJSON w 201 p) = 201 \<Longrightarrow>
      headers (respondWithJSON w 201 p) = AList.update ''Content-Type'' ''application/json'' (headers w)" for w p
    by (cases "Marshal p")
       (simp_all add: respondWithJSON_def StatusCode_def Header_Set_def WriteHeader_def Write_def)
  from assms show ?thesis
    by (auto simp: JokeHandler_CreateJoke_def respondWithError_fresh status_error_reply Let_def
        Header_Set_def j update_conv'
        split: sum.splits prod.splits if_splits)
qed

lemma Marshal_slice_not_null: "Marshal_slice (Slice js) \<noteq> Inr JNull"
  by (simp add: Marshal_slice_def split: sum.splits)

subsection \<open>The replies of the service\<close>

lemma handler_reply_error: "400 \<le> code \<Longrightarrow> handler_reply (respondWithError new_ResponseWriter code msg)"
  by (simp add: respondWithError_fresh handler_reply_def error_reply_def StatusCode_def has_error_shape_def)

lemma handler_reply_JSON:
  "status w = None \<Longrightarrow> body w = [] \<Longrightarrow> code < 400 \<Longrightarrow> handler_reply (respondWithJSON w code p)"
  by (cases "Marshal p")
     (simp_all add: respondWithJSON_def handler_reply_def StatusCode_def Header_Set_def WriteHeader_def Write_def)

lemma handler_reply_204: "handler_reply (WriteHeader 204 new_ResponseWriter)"
  by (simp add: handler_reply_def StatusCode_def WriteHeader_def)

lemma handler_reply_GetJoke: "handler_reply (fst (JokeHandler_GetJoke r new_ResponseWriter db))"
  by (simp add: JokeHandler_GetJoke_def Let_def handler_reply_error handler_reply_JSON
      split: sum.splits prod.splits)

lemma handler_reply_GetRandomJoke: "handler_reply (fst (JokeHandler_GetRandomJoke r new_ResponseWriter db))"
  by (simp add: JokeHandler_GetRandomJoke_def Let_def handler_reply_error handler_reply_JSON
      split: sum.splits prod.splits)

lemma handler_reply_ListJokes: "handler_reply (fst (JokeHandler_ListJokes r new_ResponseWriter db))"
  by (simp add: JokeHandler_ListJokes_def Let_def handler_reply_error handler_reply_JSON
      split: sum.splits prod.splits)

lemma handler_reply_CreateJoke: "handler_reply (fst (JokeHandler_CreateJoke r new_ResponseWriter db))"
  by (simp add: JokeHandler_CreateJoke_def Let_def handler_reply_error handler_reply_JSON Header_Set_def
      split: sum.splits prod.splits)

lemma handler_reply_UpdateJoke: "handler_reply (fst (JokeHandler_UpdateJoke r new_ResponseWriter db))"
  by (simp add: JokeHandler_UpdateJoke_def Let_def handler_reply_error handler_reply_JSON
      split: sum.splits prod.splits option.splits)

lemma handler_reply_DeleteJoke: "handler_reply (fst (JokeHandler_DeleteJoke r new_ResponseWriter db))"
  by (simp add: JokeHandler_DeleteJoke_def Let_def handler_reply_error handler_reply_204
      split: sum.splits prod.splits option.splits)

lemma method_not_allowed_reply:
  "StatusCode (fst (MethodNotAllowed r new_ResponseWriter db)) = 405"
  "body (fst (MethodNotAllowed r new_ResponseWriter db)) = []"
  by (simp_all add: MethodNotAllowed_def WriteHeader_def StatusCode_def)

lemma jokeRouter_reply:
  "handler_reply (fst (jokeRouter rest r new_ResponseWriter db))
   \<or> fst (jokeRouter rest r new_ResponseWriter db) = http_NotFound new_ResponseWriter
   \<or> (StatusCode (fst (jokeRouter rest r new_ResponseWriter db)) = 405
      \<and> body (fst (jokeRouter rest r new_ResponseWriter db)) = [])"
  by (simp add: jokeRouter_def handler_reply_GetJoke handler_reply_GetRandomJoke handler_reply_ListJokes
      NotFound_def method_not_allowed_reply)

lemma adminRoutes_reply:
  "handler_reply (fst (adminRoutes rest r new_ResponseWriter db))
   \<or> fst (adminRoutes rest r new_ResponseWriter db) = http_NotFound new_ResponseWriter
   \<or> (StatusCode (fst (adminRoutes rest r new_ResponseWriter db)) = 405
      \<and> body (fst (adminRoutes rest r new_ResponseWriter db)) = [])"
  by (simp add: adminRoutes_def handler_reply_CreateJoke handler_reply_UpdateJoke handler_reply_DeleteJoke
      NotFound_def method_not_allowed_reply)

lemma adminRouter_reply:
  "handler_reply (fst (adminRouter key rest r new_ResponseWriter db))
   \<or> fst (adminRouter key rest r new_ResponseWriter db) = http_Error new_ResponseWriter Unauthorized 401
   \<or> fst (adminRouter key rest r new_ResponseWriter db) = http_NotFound new_ResponseWriter
   \<or> (StatusCode (fst (adminRouter key rest r new_ResponseWriter db)) = 405
      \<and> body (fst (adminRouter key rest r new_ResponseWriter db)) = [])"
  using adminRoutes_reply[of rest r db]
  by (auto simp: adminRouter_def AdminAuth_def Let_def)

lemma apiRouter_reply:
  "handler_reply (fst (apiRouter key rest r new_ResponseWriter db))
   \<or> fst (apiRouter key rest r new_ResponseWriter db) = http_Error new_ResponseWriter Unauthorized 401
   \<or> fst (apiRouter key rest r new_ResponseWriter db) = http_NotFound new_ResponseWriter
   \<or> (StatusCode (fst (apiRouter key rest r new_ResponseWriter db)) = 405
      \<and> body (fst (apiRouter key rest r new_ResponseWriter db)) = [])"
proof (cases rest)
  case Nil
  then show ?thesis by (simp add: apiRouter_def NotFound_def)
next
  case (Cons s rest1)
  then show ?thesis
    using adminRouter_reply[of key rest1 r db] jokeRouter_reply[of rest1 r db]
    by (auto simp: apiRouter_def NotFound_def)
qed

lemma serve_reply:
  "handler_reply (fst (serve key r db))
   \<or> fst (serve key r db) = http_Error new_ResponseWriter Unauthorized 401
   \<or> fst (serve key r db) = http_NotFound new_ResponseWriter
   \<or> (StatusCode (fst (serve key r db)) = 405
      \<and> body (fst (serve key r db)) = [])"
proof (cases "segments (Path r)")
  case Nil
  then show ?thesis by (simp add: serve_def NotFound_def)
next
  case (Cons s rest)
  have hello: "handler_reply (Write (Plain ''Hello from the Jokes API!'') new_ResponseWriter)"
    by (simp add: handler_reply_def StatusCode_def Write_def WriteHeader_def)
  have ok: "handler_reply (Write (Plain ''OK'') (WriteHeader 200 new_ResponseWriter))"
    by (simp add: handler_reply_def StatusCode_def Write_def WriteHeader_def)
  from Cons show ?thesis
    using apiRouter_reply[of key rest r db] hello ok
    by (auto simp: serve_def Let_def NotFound_def method_not_allowed_reply)
qed

lemma gate_rejects:
  assumes "segments (Path r) = ''api'' # ''admin'' # rest"
    and "Header_Get r ''Admin-API-Key'' = [] \<or> Header_Get r ''Admin-API-Key'' \<noteq> key"
  shows "serve key r db = (http_Error new_ResponseWriter Unauthorized 401, db)"
  using assms by (auto simp: serve_def apiRouter_def adminRouter_def AdminAuth_def Let_def)

subsection \<open>The bytes after the first JSON value of a body\<close>

text \<open>No handler, gate or route reads them: the reply and the world do not depend on them.\<close>

lemma trailing_handlers:
  "JokeHandler_ListJokes (r\<lparr>Trailing := t\<rparr>) = JokeHandler_ListJokes r"
  "JokeHandler_GetRandomJoke (r\<lparr>Trailing := t\<rparr>) = JokeHandler_GetRandomJoke r"
  "JokeHandler_CreateJoke (r\<lparr>Trailing := t\<rparr>) = JokeHandler_CreateJoke r"
  "JokeHandler_GetJoke (r\<lparr>Trailing := t, URLParams := ps\<rparr>) =
     JokeHandler_GetJoke (r\<lparr>URLParams := ps\<rparr>)"
  "JokeHandler_UpdateJoke (r\<lparr>Trailing := t, URLParams := ps\<rparr>) =
     JokeHandler_UpdateJoke (r\<lparr>URLParams := ps\<rparr>)"
  "JokeHandler_DeleteJoke (r\<lparr>Trailing := t, URLParams := ps\<rparr>) =
     JokeHandler_DeleteJoke (r\<lparr>URLParams := ps\<rparr>)"
  by (intro ext,
      simp add: JokeHandler_ListJokes_def JokeHandler_GetJoke_def JokeHandler_GetRandomJoke_def
        JokeHandler_CreateJoke_def JokeHandler_UpdateJoke_def JokeHandler_DeleteJoke_def
        list_limit_def list_offset_def Query_Get_def URLParam_def
        cong: sum.case_cong if_cong)+

lemma trailing_jokeRouter: "jokeRouter rest (r\<lparr>Trailing := t\<rparr>) w db = jokeRouter rest r w db"
  by (simp add: jokeRouter_def trailing_handlers NotFound_def MethodNotAllowed_def)

lemma trailing_adminRoutes: "adminRoutes rest (r\<lparr>Trailing := t\<rparr>) w db = adminRoutes rest r w db"
  by (simp add: adminRoutes_def trailing_handlers NotFound_def MethodNotAllowed_def)

lemma trailing_apiRouter: "apiRouter key rest (r\<lparr>Trailing := t\<rparr>) w db = apiRouter key rest r w db"
  by (cases rest)
     (simp_all add: apiRouter_def adminRouter_def AdminAuth_def Header_Get_def NotFound_def Let_def
        trailing_jokeRouter trailing_adminRoutes)

lemma trailing_ignored: "serve key (r\<lparr>Trailing := t\<rparr>) db = serve key r db"
  by (cases "segments (Path r)")
     (simp_all add: serve_def trailing_apiRouter NotFound_def MethodNotAllowed_def)

text \<open>
  On a driver that does not fail, the count and then the listing with that count as limit
  both succeed, and the listing is the whole table; a count that succeeds is the number
  of rows of the table.
\<close>

lemma count_and_listing_on_healthy_driver:
  "(CountJokes w = (Inr n, w1) \<longrightarrow> n = int (length (jokes w)))
   \<and> (faults w = [] \<longrightarrow>
        (\<exists>js. CountJokes w = (Inr (int (length js)), w)
             \<and> ListJokes (int (length js)) 0 w = (Inr (Slice js), w)
             \<and> js = jokes w))"
proof (intro conjI impI)
  assume "CountJokes w = (Inr n, w1)"
  then show "n = int (length (jokes w))" using CountJokes_result by blast
next
  assume h: "faults w = []"
  then have "CountJokes w = (Inr (int (length (jokes w))), w)" by (rule CountJokes_healthy)
  moreover from h have "ListJokes (int (length (jokes w))) 0 w = (Inr (Slice (jokes w)), w)"
    by (simp add: ListJokes_healthy select_all)
  ultimately show "\<exists>js. CountJokes w = (Inr (int (length js)), w)
             \<and> ListJokes (int (length js)) 0 w = (Inr (Slice js), w)
             \<and> js = jokes w"
    by blast
qed

subsection \<open>The claims\<close>

text \<open>
  C1. \<open>GET /api/joke/{id}\<close> with an integer id that matches no record is to answer 404,
  with an id that is no integer 400, with the id of a record 200 and the record. On the
  empty store \<open>GET /api/joke/1\<close> answers 500 with the message of the storage-failure
  branch: \<open>GetJoke\<close> wraps \<open>sql.ErrNoRows\<close> and never returns \<open>ErrJokeNotFound\<close>, so
  the handler's \<open>errors.Is\<close> test fails. The other two answers are as claimed.
\<close>

theorem get_missing_joke_answers_500:
  "serve ''secret'' (request GET ''/api/joke/1'') fresh_world =
     (error_reply 500 ''Failed to retrieve joke'', fresh_world)
   \<and> serve ''secret'' (request GET ''/api/joke/abc'') one_joke_world =
     (error_reply 400 ''Invalid joke ID'', one_joke_world)
   \<and> serve ''secret'' (request GET ''/api/joke/1'') one_joke_world =
     (\<lparr>headers = [(''Content-Type'', ''application/json'')], status = Some 200,
       body = [Encoded (encode_Joke knock_knock)]\<rparr>, one_joke_world)"
  by (simp add: run_defs)

text \<open>
  C2. \<open>GET /api/joke/random\<close> on the empty store is to answer 404, and 200 with the
  joke once one joke exists. On the empty store it answers 500: \<open>GetRandomJoke\<close> wraps
  \<open>sql.ErrNoRows\<close> and never returns \<open>ErrNoJokes\<close>. After the creation of one joke it
  answers 200 with that joke.
\<close>

theorem random_joke_on_empty_store_answers_500:
  "serve ''secret'' (request GET ''/api/joke/random'') fresh_world =
     (error_reply 500 ''Failed to retrieve random joke'', fresh_world)
   \<and> snd (serve ''secret'' (admin_request ''secret'' POST ''/api/admin/joke''
             (Some (VObj [(''text'', VStr ''knock knock'')]))) fresh_world) = one_joke_world
   \<and> serve ''secret'' (request GET ''/api/joke/random'') one_joke_world =
     (\<lparr>headers = [(''Content-Type'', ''application/json'')], status = Some 200,
       body = [Encoded (encode_Joke knock_knock)]\<rparr>, one_joke_world)"
  by (simp add: run_defs)

text \<open>
  C3. An authorized \<open>DELETE /api/admin/joke/{id}\<close> with an id that matches no record is
  to answer 404. On the empty store \<open>DELETE /api/admin/joke/1\<close> answers 500:
  \<open>DeleteJoke\<close> returns a new error with the text \<open>joke not found\<close>, which is not the
  sentinel \<open>ErrJokeNotFound\<close>. A malformed id answers 400, and the deletion of an existing
  record answers 204 with an empty body and removes the record.
\<close>

theorem delete_missing_joke_answers_500:
  "serve ''secret'' (admin_request ''secret'' DELETE ''/api/admin/joke/1'' None) fresh_world =
     (error_reply 500 ''Failed to delete joke'', fresh_world)
   \<and> serve ''secret'' (admin_request ''secret'' DELETE ''/api/admin/joke/abc'' None) one_joke_world =
     (error_reply 400 ''Invalid joke ID'', one_joke_world)
   \<and> serve ''secret'' (admin_request ''secret'' DELETE ''/api/admin/joke/1'' None) one_joke_world =
     (\<lparr>headers = [], status = Some 204, body = []\<rparr>, one_joke_world\<lparr>jokes := []\<rparr>)"
  by (simp add: run_defs)

text \<open>
  C4, as stated: every failure response, the 401 of the admin gate too, carries a JSON
  body of the shape \<open>{"error": message}\<close>. The gate answers a request without the key
  through \<open>http.Error\<close>: status 401, content type \<open>text/plain\<close>, the body \<open>Unauthorized\<close>
  and a newline.
\<close>

theorem unauthorized_reply_is_plain_text:
  "fst (serve ''secret'' (request DELETE ''/api/admin/joke/1'') fresh_world) =
     \<lparr>headers = [(''Content-Type'', ''text/plain; charset=utf-8''), (''X-Content-Type-Options'', ''nosniff'')],
      status = Some 401, body = [Plain ''Unauthorized\<newline>'']\<rparr>
   \<and> \<not> has_error_shape (fst (serve ''secret'' (request DELETE ''/api/admin/joke/1'') fresh_world))"
  by (simp add: run_defs has_error_shape_def)

text \<open>
  C4, amended. Every reply of the service with a failure status is a reply of
  \<open>respondWithError\<close> (content type \<open>application/json\<close>, a body of the shape
  \<open>{"error": message}\<close>, the status the handler chose), unless it is one of the replies
  written elsewhere: the 401 of the admin gate, the router's own 404 and its 405 with an
  empty body, and the plain 500 of \<open>respondWithJSON\<close> for a payload that cannot be
  encoded. The admin gate answers every request below \<open>/api/admin\<close> that carries no key
  or another key with that 401 and leaves the world as it is.
\<close>

theorem failure_replies_of_the_service:
  "(handler_reply (fst (serve key r db))
    \<or> fst (serve key r db) = http_Error new_ResponseWriter Unauthorized 401
    \<or> fst (serve key r db) = http_NotFound new_ResponseWriter
    \<or> (StatusCode (fst (serve key r db)) = 405
       \<and> body (fst (serve key r db)) = []))
   \<and> (segments (Path r) = ''api'' # ''admin'' # rest
        \<and> (Header_Get r ''Admin-API-Key'' = [] \<or> Header_Get r ''Admin-API-Key'' \<noteq> key)
      \<longrightarrow> serve key r db = (http_Error new_ResponseWriter Unauthorized 401, db))"
  using serve_reply[of key r db] gate_rejects[of r rest key db] by blast

theorem failure_replies_of_the_service_witness:
  "segments (Path (request DELETE ''/api/admin/joke/1'')) = ''api'' # ''admin'' # [''joke'', ''1'']
   \<and> Header_Get (request DELETE ''/api/admin/joke/1'') ''Admin-API-Key'' = []
   \<and> serve ''secret'' (request DELETE ''/api/admin/joke/1'') fresh_world =
       (http_Error new_ResponseWriter Unauthorized 401, fresh_world)
   \<and> StatusCode (http_Error new_ResponseWriter Unauthorized 401) = 401
   \<and> handler_reply (fst (serve ''secret'' (request GET ''/api/joke/abc'') fresh_world))
   \<and> fst (serve ''secret'' (request GET ''/api/joke/abc'') fresh_world) = error_reply 400 ''Invalid joke ID''"
  using failure_replies_of_the_service
    [of "''secret''" "request DELETE ''/api/admin/joke/1''" fresh_world "[''joke'', ''1'']"]
    failure_replies_of_the_service
    [of "''secret''" "request GET ''/api/joke/abc''" fresh_world]
  by (simp add: run_defs handler_reply_def has_error_shape_def)

text \<open>
  C5. A joke read back right after its creation is to have the text given, an id other
  than zero and \<open>createdAt\<close> equal to \<open>updatedAt\<close>. \<open>CreateJoke\<close> reads the clock twice,
  once for each column; on a clock that advances between the two readings the record read
  back has two different instants. Its text and its id are as claimed.
\<close>

theorem created_joke_has_two_clock_readings:
  "CreateJoke \<lparr>ID = 0, Text = ''knock knock'', CreatedAt = zero_Time, UpdatedAt = zero_Time\<rparr> fresh_world =
     (Inr 1, one_joke_world)
   \<and> GetJoke 1 one_joke_world = (Inr knock_knock, one_joke_world)
   \<and> Text knock_knock = ''knock knock''
   \<and> ID knock_knock = 1
   \<and> CreatedAt knock_knock = 1700000000000000000
   \<and> UpdatedAt knock_knock = 1700000000000000001
   \<and> CreatedAt knock_knock \<noteq> UpdatedAt knock_knock"
  by (simp add: run_defs)

text \<open>
  C6. The reply to a successful create is to carry status 201, the record read back,
  and a \<open>Location\<close> header with the path from which the record can be fetched. The
  header holds \<open>/api/jokes/1\<close>; no route has that path (the router answers 404), the
  record is served at \<open>/api/joke/1\<close>. Status and body are as claimed.
\<close>

theorem location_of_created_joke_is_no_route:
  "serve ''secret'' (admin_request ''secret'' POST ''/api/admin/joke''
          (Some (VObj [(''text'', VStr ''knock knock'')]))) fresh_world =
     (\<lparr>headers = [(''Location'', ''/api/jokes/1''), (''Content-Type'', ''application/json'')],
       status = Some 201, body = [Encoded (encode_Joke knock_knock)]\<rparr>, one_joke_world)
   \<and> serve ''secret'' (request GET ''/api/jokes/1'') one_joke_world =
     (http_NotFound new_ResponseWriter, one_joke_world)
   \<and> StatusCode (http_NotFound new_ResponseWriter) = 404
   \<and> serve ''secret'' (request GET ''/api/joke/1'') one_joke_world =
     (\<lparr>headers = [(''Content-Type'', ''application/json'')], status = Some 200,
       body = [Encoded (encode_Joke knock_knock)]\<rparr>, one_joke_world)"
  by (simp add: run_defs)

text \<open>
  C7. The list handler passes on limit 10 unless the \<open>limit\<close> parameter parses as a
  positive integer, and offset 0 unless the \<open>offset\<close> parameter parses as a non-negative
  integer. Whatever the two parameters hold, the reply is 200 or, when the storage or the
  encoder fails, 500, never a validation error; on a driver that does not fail and a table of
  encodable rows it is 200 with the effective limit and offset: a parameter that is
  malformed or out of range gives the default and no error.
\<close>

theorem list_parameters_fall_back_to_defaults:
  "list_limit r = effective_limit r
   \<and> list_offset r = effective_offset r
   \<and> (StatusCode (fst (JokeHandler_ListJokes r new_ResponseWriter db)) = 200
        \<or> StatusCode (fst (JokeHandler_ListJokes r new_ResponseWriter db)) = 500)
   \<and> (faults db = [] \<and> list_all encodable (jokes db) \<longrightarrow>
        JokeHandler_ListJokes r new_ResponseWriter db =
          (list_reply (map encode_Joke (select_limit_offset (effective_limit r) (effective_offset r) (jokes db)))
             (int (length (jokes db))) (effective_limit r) (effective_offset r), db))"
proof (intro conjI impI)
  show "list_limit r = effective_limit r" by (rule list_limit_effective)
  show "list_offset r = effective_offset r" by (rule list_offset_effective)
  show "StatusCode (fst (JokeHandler_ListJokes r new_ResponseWriter db)) = 200
        \<or> StatusCode (fst (JokeHandler_ListJokes r new_ResponseWriter db)) = 500"
    by (rule list_status_200_or_500)
next
  assume a: "faults db = [] \<and> list_all encodable (jokes db)"
  let ?sel = "select_limit_offset (effective_limit r) (effective_offset r) (jokes db)"
  from a have "list_all encodable ?sel" by (simp add: list_all_select)
  then have m: "Marshal_Jokes ?sel = Inr (map encode_Joke ?sel)" by (rule Marshal_Jokes_encodable)
  from a have "faults db = []" by simp
  then show "JokeHandler_ListJokes r new_ResponseWriter db =
          (list_reply (map encode_Joke ?sel) (int (length (jokes db))) (effective_limit r) (effective_offset r), db)"
    by (simp add: JokeHandler_ListJokes_healthy list_limit_effective list_offset_effective
        respondWithJSON_list_cases m)
qed

theorem list_parameters_fall_back_to_defaults_witness:
  "faults one_joke_world = [] \<and> list_all encodable (jokes one_joke_world)
   \<and> JokeHandler_ListJokes ((request GET ''/api/joke/'')\<lparr>Query := [(''limit'', ''ten''), (''offset'', ''-3'')]\<rparr>)
        new_ResponseWriter one_joke_world =
      (list_reply [encode_Joke knock_knock] 1 10 0, one_joke_world)"
  using list_parameters_fall_back_to_defaults
    [of "(request GET ''/api/joke/'')\<lparr>Query := [(''limit'', ''ten''), (''offset'', ''-3'')]\<rparr>" one_joke_world]
  by (simp add: effective_limit_def effective_offset_def encodable_def year_0_to_9999_def
      strconv_defs Query_Get_def select_limit_offset_def fresh_world_def request_def knock_knock_def
      one_joke_world_def)

text \<open>
  C8. The count is to equal the length of the listing with the count as limit and
  offset 0, so that no record is hidden from the listing. \<open>ListJokes\<close> leaves its loop
  when \<open>rows.Next()\<close> is \<open>false\<close> and never looks at \<open>rows.Err()\<close>: when the driver
  fails on a \<open>Next\<close> the listing returns the rows read so far and no error. On a table
  of one joke, with a driver that serves the count and the listing's query and fails on
  the first \<open>Next\<close>, the count is 1 and the listing is empty, both without an error; the
  list handler answers 200 with total 1 and no joke. On a driver that does not fail the
  two agree.
\<close>

theorem listing_hides_rows_when_Next_fails:
  "jokes one_joke_world = [knock_knock]
   \<and> CountJokes (one_joke_world\<lparr>faults := [False, False, True]\<rparr>) =
       (Inr 1, one_joke_world\<lparr>faults := [False, True]\<rparr>)
   \<and> ListJokes 1 0 (one_joke_world\<lparr>faults := [False, True]\<rparr>) = (Inr (Slice []), one_joke_world)
   \<and> serve ''secret'' (request GET ''/api/joke/'') (one_joke_world\<lparr>faults := [False, True]\<rparr>) =
       (list_reply [] 1 10 0, one_joke_world)
   \<and> CountJokes one_joke_world = (Inr 1, one_joke_world)
   \<and> ListJokes 1 0 one_joke_world = (Inr (Slice [knock_knock]), one_joke_world)"
  by (simp add: run_defs list_reply_def)

text \<open>
  C9. \<open>ListJokes\<close> never returns a \<open>nil\<close> slice without an error, and what it
  returns never encodes as \<open>null\<close>; so every 200 reply of the list handler holds an array
  under \<open>jokes\<close>. On an empty table, or with an offset at or past the number of rows, the
  listing is the empty slice and the reply holds the empty array.
\<close>

theorem listing_is_never_nil:
  "fst (ListJokes lim off db) \<noteq> Inr nil
   \<and> (fst (ListJokes lim off db) = Inr s \<longrightarrow> Marshal_slice s \<noteq> Inr JNull)
   \<and> (StatusCode (fst (JokeHandler_ListJokes r new_ResponseWriter db)) = 200 \<longrightarrow>
        (\<exists>xs n. fst (JokeHandler_ListJokes r new_ResponseWriter db) =
                  list_reply xs n (list_limit r) (list_offset r)))
   \<and> (faults db = [] \<and> int (length (jokes db)) \<le> list_offset r \<longrightarrow>
        ListJokes (list_limit r) (list_offset r) db = (Inr (Slice []), db)
        \<and> JokeHandler_ListJokes r new_ResponseWriter db =
            (list_reply [] (int (length (jokes db))) (list_limit r) (list_offset r), db))"
proof (intro conjI impI)
  show "fst (ListJokes lim off db) \<noteq> Inr nil" by (rule ListJokes_not_nil)
next
  assume "fst (ListJokes lim off db) = Inr s"
  then have "ListJokes lim off db = (Inr s, snd (ListJokes lim off db))"
    by (metis prod.collapse)
  then obtain js where "s = Slice js" using ListJokes_Slice by blast
  then show "Marshal_slice s \<noteq> Inr JNull" by (simp add: Marshal_slice_not_null)
next
  assume "StatusCode (fst (JokeHandler_ListJokes r new_ResponseWriter db)) = 200"
  then show "\<exists>xs n. fst (JokeHandler_ListJokes r new_ResponseWriter db) =
                  list_reply xs n (list_limit r) (list_offset r)"
    by (rule list_200_has_array)
next
  assume a: "faults db = [] \<and> int (length (jokes db)) \<le> list_offset r"
  then have "length (jokes db) \<le> nat (list_offset r)" by linarith
  then have sel: "select_limit_offset (list_limit r) (list_offset r) (jokes db) = []"
    by (simp add: select_limit_offset_def Let_def)
  with a show "ListJokes (list_limit r) (list_offset r) db = (Inr (Slice []), db)"
    by (simp add: ListJokes_healthy)
  from a sel show "JokeHandler_ListJokes r new_ResponseWriter db =
            (list_reply [] (int (length (jokes db))) (list_limit r) (list_offset r), db)"
    by (simp add: JokeHandler_ListJokes_healthy respondWithJSON_list_cases)
qed

theorem listing_is_never_nil_witness:
  "faults fresh_world = [] \<and> int (length (jokes fresh_world)) \<le> list_offset (request GET ''/api/joke/'')
   \<and> StatusCode (fst (JokeHandler_ListJokes (request GET ''/api/joke/'') new_ResponseWriter fresh_world)) = 200
   \<and> fst (ListJokes 10 0 fresh_world) = Inr (Slice [])
   \<and> Marshal_slice (Slice []) = Inr (JArr [])
   \<and> JokeHandler_ListJokes (request GET ''/api/joke/'') new_ResponseWriter fresh_world =
       (list_reply [] 0 10 0, fresh_world)"
  using listing_is_never_nil
    [where lim = 10 and off = 0 and db = fresh_world and r = "request GET ''/api/joke/''" and s = "Slice []"]
  by (simp add: fresh_world_def request_def list_limit_def list_offset_def Query_Get_def
      list_reply_def StatusCode_def Marshal_slice_def)

text \<open>
  C10, as stated: an authorized create or update whose body is not syntactically valid
  JSON is answered 400 before any operation of the repository. The handlers decode with
  \<open>json.NewDecoder(r.Body).Decode\<close>, which reads one JSON value and leaves the rest of
  the body unread: the body \<open>{"text":"knock knock"}]\<close> is no valid JSON, and the create
  is answered 201 with the joke stored.
\<close>

theorem trailing_bytes_do_not_stop_a_create:
  "\<not> valid_JSON ((admin_request ''secret'' POST ''/api/admin/joke''
          (Some (VObj [(''text'', VStr ''knock knock'')])))\<lparr>Trailing := '']''\<rparr>)
   \<and> serve ''secret'' ((admin_request ''secret'' POST ''/api/admin/joke''
          (Some (VObj [(''text'', VStr ''knock knock'')])))\<lparr>Trailing := '']''\<rparr>) fresh_world =
     (\<lparr>headers = [(''Location'', ''/api/jokes/1''), (''Content-Type'', ''application/json'')],
       status = Some 201, body = [Encoded (encode_Joke knock_knock)]\<rparr>, one_joke_world)
   \<and> jokes fresh_world = []
   \<and> jokes one_joke_world = [knock_knock]"
  by (simp add: run_defs valid_JSON_def json_space_def)

text \<open>
  C10, amended. An authorized create or update whose body does not start with a
  syntactically valid JSON value is answered 400, and the world after the request is the
  world before it, whatever the driver would have done: no operation of the repository
  has run. The bytes that follow the first JSON value of a body are not read: the request
  is answered, and the world changed, as if they were not there.
\<close>

theorem malformed_body_answers_400_before_the_repository:
  "(Header_Get r ''Admin-API-Key'' = key \<and> key \<noteq> [] \<and> Body r = None \<longrightarrow>
     (Method r = POST \<and> segments (Path r) = [''api'', ''admin'', ''joke''] \<longrightarrow>
        serve key r db = (error_reply 400 ''Invalid request payload'', db))
     \<and> (Method r = PUT \<and> segments (Path r) = [''api'', ''admin'', ''joke'', idParam] \<and> idParam \<noteq> [] \<longrightarrow>
        serve key r db =
          (error_reply 400 (case ParseInt idParam of
                              Inl e \<Rightarrow> ''Invalid joke ID''
                            | Inr i \<Rightarrow> ''Invalid request payload''), db)))
   \<and> serve key (r\<lparr>Trailing := t\<rparr>) db = serve key r db"
proof (rule conjI)
  show "Header_Get r ''Admin-API-Key'' = key \<and> key \<noteq> [] \<and> Body r = None \<longrightarrow>
     (Method r = POST \<and> segments (Path r) = [''api'', ''admin'', ''joke''] \<longrightarrow>
        serve key r db = (error_reply 400 ''Invalid request payload'', db))
     \<and> (Method r = PUT \<and> segments (Path r) = [''api'', ''admin'', ''joke'', idParam] \<and> idParam \<noteq> [] \<longrightarrow>
        serve key r db =
          (error_reply 400 (case ParseInt idParam of
                              Inl e \<Rightarrow> ''Invalid joke ID''
                            | Inr i \<Rightarrow> ''Invalid request payload''), db))"
    by (simp add: serve_def apiRouter_def adminRouter_def adminRoutes_def AdminAuth_def
        JokeHandler_CreateJoke_def JokeHandler_UpdateJoke_def Decode_def Header_Get_def URLParam_def
        respondWithError_fresh Let_def split: sum.splits)
  show "serve key (r\<lparr>Trailing := t\<rparr>) db = serve key r db" by (rule trailing_ignored)
qed

theorem malformed_body_answers_400_before_the_repository_witness:
  "Header_Get (admin_request ''secret'' POST ''/api/admin/joke'' None) ''Admin-API-Key'' = ''secret''
   \<and> ''secret'' \<noteq> []
   \<and> Body (admin_request ''secret'' POST ''/api/admin/joke'' None) = None
   \<and> segments (Path (admin_request ''secret'' POST ''/api/admin/joke'' None)) = [''api'', ''admin'', ''joke'']
   \<and> serve ''secret'' (admin_request ''secret'' POST ''/api/admin/joke'' None)
        (one_joke_world\<lparr>faults := [True]\<rparr>) =
       (error_reply 400 ''Invalid request payload'', one_joke_world\<lparr>faults := [True]\<rparr>)
   \<and> segments (Path (admin_request ''secret'' PUT ''/api/admin/joke/1'' None)) = [''api'', ''admin'', ''joke'', ''1'']
   \<and> serve ''secret'' (admin_request ''secret'' PUT ''/api/admin/joke/1'' None)
        (one_joke_world\<lparr>faults := [True]\<rparr>) =
       (error_reply 400 ''Invalid request payload'', one_joke_world\<lparr>faults := [True]\<rparr>)
   \<and> serve ''secret'' ((admin_request ''secret'' POST ''/api/admin/joke'' None)\<lparr>Trailing := '']''\<rparr>)
        (one_joke_world\<lparr>faults := [True]\<rparr>) =
       (error_reply 400 ''Invalid request payload'', one_joke_world\<lparr>faults := [True]\<rparr>)"
  using malformed_body_answers_400_before_the_repository
    [where r = "admin_request ''secret'' POST ''/api/admin/joke'' None" and key = "''secret''"
       and db = "one_joke_world\<lparr>faults := [True]\<rparr>" and t = "'']''"]
    malformed_body_answers_400_before_the_repository
    [where r = "admin_request ''secret'' PUT ''/api/admin/joke/1'' None" and key = "''secret''"
       and db = "one_joke_world\<lparr>faults := [True]\<rparr>" and idParam = "''1''"]
  by (simp add: admin_request_def Header_Get_def equal_fold_def to_lower_def segments_def strconv_defs)

end
